theory Spec2Isabelle
  imports Main "HOL-Library.Word"
begin

unbundle bit_operations_syntax

section \<open>The program state of PWM\_main.c\<close>

text \<open>
  The functions whose bodies live in the drivers under \<open>../inc\<close> (motor layer, clock
  delay, Timer A2 duty updates, RGB LED, UART \<open>printf\<close>) are external to the two source
  files. A call to one of them is recorded, with the arguments as written at the call
  site, in the order of execution.
\<close>

datatype rgb_led = RGB_LED_RED | RGB_LED_BLUE

datatype call =
    Motor_Forward nat nat
  | Motor_Backward nat nat
  | Motor_Left nat nat
  | Motor_Right nat nat
  | Motor_Stop
  | Clock_Delay1ms nat
  | Timer_A2_Update_Duty_Cycle_1 nat
  | Timer_A2_Update_Duty_Cycle_2 nat
  | LED2_Output rgb_led
  | Printf string

text \<open>
  The two \<open>uint8_t\<close> globals of PWM\_main.c, the 8-bit output register \<open>P8->OUT\<close>,
  the capture/compare control register \<open>TIMER_A1->CCTL[0]\<close>, and the calls made so far.
\<close>

record state =
  bumper_sensor_value :: "8 word"
  collision_detected :: "8 word"
  P8_OUT :: "8 word"
  TIMER_A1_CCTL0 :: "16 word"
  trace :: "call list"

text \<open>
  Straight-line code is a list of statements: a call to an external function, or the
  assignment \<open>collision_detected = v\<close>. Running a list executes it front to back, so the
  state after any prefix of a function body is available.
\<close>

datatype stmt =
    Call call
  | Assign_collision_detected "8 word"

fun exec :: "stmt \<Rightarrow> state \<Rightarrow> state" where
  "exec (Call c) s = s\<lparr>trace := trace s @ [c]\<rparr>"
| "exec (Assign_collision_detected v) s = s\<lparr>collision_detected := v\<rparr>"

primrec run :: "stmt list \<Rightarrow> state \<Rightarrow> state" where
  "run [] s = s"
| "run (x # xs) s = run xs (exec x s)"

section \<open>The diagnostic line\<close>

text \<open>
  \<open>printf\<close> with the conversion \<open>%02X\<close>: the argument in upper-case hexadecimal, padded
  with zeros on the left to a width of at least two characters.
\<close>

definition hex_digit :: "nat \<Rightarrow> char" where
  "hex_digit d = ''0123456789ABCDEF'' ! d"

fun hex_upper :: "nat \<Rightarrow> string" where
  "hex_upper n = (if n < 16 then [hex_digit n] else hex_upper (n div 16) @ [hex_digit (n mod 16)])"

definition printf_02X :: "nat \<Rightarrow> string" where
  "printf_02X n = replicate (2 - length (hex_upper n)) (CHR ''0'') @ hex_upper n"

definition collision_message :: "8 word \<Rightarrow> string" where
  "collision_message bumper_sensor_state =
     ''Collision Detected! Bumper Sensor State: 0x'' @ printf_02X (unat bumper_sensor_state) @ [CHR 0x0A]"

section \<open>Interrupt handlers\<close>

definition Bumper_Sensors_Handler :: "8 word \<Rightarrow> state \<Rightarrow> state" where
  "Bumper_Sensors_Handler bumper_sensor_state s =
     (if collision_detected s = 0
      then run [Call (Printf (collision_message bumper_sensor_state)),
                Assign_collision_detected 1] s
      else s)"

definition Timer_A1_10_Hz_Task :: "state \<Rightarrow> state" where
  "Timer_A1_10_Hz_Task s =
     (if collision_detected s = 0
      then (let s1 = s\<lparr>P8_OUT := P8_OUT s XOR 0x21\<rparr>
            in s1\<lparr>P8_OUT := P8_OUT s1 AND NOT 0xC0\<rparr>)
      else (let s1 = s\<lparr>P8_OUT := P8_OUT s XOR 0xC0\<rparr>
            in s1\<lparr>P8_OUT := P8_OUT s1 AND NOT 0x21\<rparr>))"

text \<open>
  \<open>TA1_0_IRQHandler\<close> of Timer\_A1\_Interrupt.c acknowledges the interrupt and runs the
  task registered by \<open>Timer_A1_Interrupt_Init\<close>.
\<close>

definition TA1_0_IRQHandler :: "(state \<Rightarrow> state) \<Rightarrow> state \<Rightarrow> state" where
  "TA1_0_IRQHandler Timer_A1_Task s =
     Timer_A1_Task (s\<lparr>TIMER_A1_CCTL0 := TIMER_A1_CCTL0 s AND NOT 0x0001\<rparr>)"

section \<open>Drive sequences\<close>

definition Drive_Pattern_1_body :: "stmt list" where
  "Drive_Pattern_1_body =
     [Call (Motor_Forward 7500 7500), Call (Clock_Delay1ms 2000),
      Call Motor_Stop, Call (Clock_Delay1ms 2000),
      Call (Motor_Left 4500 4500), Call (Clock_Delay1ms 2000),
      Call Motor_Stop, Call (Clock_Delay1ms 2000),
      Call (Motor_Right 4500 4500), Call (Clock_Delay1ms 2000),
      Call Motor_Stop, Call (Clock_Delay1ms 2000),
      Call (Motor_Backward 4500 4500), Call (Clock_Delay1ms 2000),
      Call Motor_Stop, Call (Clock_Delay1ms 2000)]"

definition Drive_Pattern_1 :: "state \<Rightarrow> state" where
  "Drive_Pattern_1 = run Drive_Pattern_1_body"

definition Handle_Collision_body :: "stmt list" where
  "Handle_Collision_body =
     [Call Motor_Stop, Call (Clock_Delay1ms 2000),
      Call (Motor_Backward 4500 4500), Call (Clock_Delay1ms 3000),
      Call Motor_Stop, Call (Clock_Delay1ms 1000),
      Call (Motor_Right 1500 1500), Call (Clock_Delay1ms 5000),
      Call Motor_Stop, Call (Clock_Delay1ms 2000),
      Assign_collision_detected 0]"

definition Handle_Collision :: "state \<Rightarrow> state" where
  "Handle_Collision = run Handle_Collision_body"

section \<open>The main loop\<close>

text \<open>
  The body of \<open>while(1)\<close> in \<open>main\<close> as it is compiled: the call of
  \<open>Drive_Pattern_1\<close> and the \<open>if (collision_detected == 0) ... else Handle_Collision()\<close>
  block are comments in the source and generate no code.
\<close>

definition main_loop_body :: "stmt list" where
  "main_loop_body =
     [Call (Timer_A2_Update_Duty_Cycle_1 1700), Call (Timer_A2_Update_Duty_Cycle_2 1700),
      Call (LED2_Output RGB_LED_RED), Call (Clock_Delay1ms 5000),
      Call (Timer_A2_Update_Duty_Cycle_1 7000), Call (Timer_A2_Update_Duty_Cycle_2 7000),
      Call (LED2_Output RGB_LED_BLUE), Call (Clock_Delay1ms 5000)]"

definition main_loop_iteration :: "state \<Rightarrow> state" where
  "main_loop_iteration = run main_loop_body"

text \<open>The loop never exits; \<open>main_loop n\<close> is the state after \<open>n\<close> iterations.\<close>

primrec main_loop :: "nat \<Rightarrow> state \<Rightarrow> state" where
  "main_loop 0 s = s"
| "main_loop (Suc n) s = main_loop n (main_loop_iteration s)"

text \<open>
  After \<open>EnableInterrupts\<close> the program advances in steps: the main loop executes its
  next statement, or one of the two interrupt sources fires and its handler runs to
  completion. \<open>pc\<close> is the index of the next statement of the loop body.
\<close>

datatype cpu_context = Main | PORT4_IRQ "8 word" | TA1_0_IRQ

record system =
  mem :: state
  pc :: nat

fun step :: "cpu_context \<Rightarrow> system \<Rightarrow> system" where
  "step Main \<sigma> =
     \<lparr>mem = exec (main_loop_body ! (pc \<sigma> mod length main_loop_body)) (mem \<sigma>),
      pc = Suc (pc \<sigma> mod length main_loop_body) mod length main_loop_body\<rparr>"
| "step (PORT4_IRQ b) \<sigma> = \<sigma>\<lparr>mem := Bumper_Sensors_Handler b (mem \<sigma>)\<rparr>"
| "step TA1_0_IRQ \<sigma> = \<sigma>\<lparr>mem := TA1_0_IRQHandler Timer_A1_10_Hz_Task (mem \<sigma>)\<rparr>"

primrec steps :: "cpu_context list \<Rightarrow> system \<Rightarrow> system" where
  "steps [] \<sigma> = \<sigma>"
| "steps (c # cs) \<sigma> = steps cs (step c \<sigma>)"

section \<open>The PWM channel driver\<close>

text \<open>
  Modelled from the spec: the PWM channel driver (the bodies of \<open>Timer_A2_PWM_Init\<close>,
  \<open>Timer_A2_Update_Duty_Cycle_1\<close>, \<open>Timer_A2_Update_Duty_Cycle_2\<close> and their Timer A0
  counterparts) is not among the source files. A channel is its period in ticks, one duty
  value per output line and its active/stopped state.
\<close>

record pwm_channel =
  period :: nat
  duty_a :: nat
  duty_b :: nat
  active :: bool

datatype channel_index = Output_A | Output_B

text \<open>
  Modelled from the spec: \<open>update_duty(channel_index, value)\<close>, missing from the source
  files, "updates one output's duty value without disturbing the other or the period;
  value is clamped to [0, period]".
\<close>

definition update_duty :: "channel_index \<Rightarrow> nat \<Rightarrow> pwm_channel \<Rightarrow> pwm_channel" where
  "update_duty channel_index v ch =
     (case channel_index of
        Output_A \<Rightarrow> ch\<lparr>duty_a := min v (period ch)\<rparr>
      | Output_B \<Rightarrow> ch\<lparr>duty_b := min v (period ch)\<rparr>)"

section \<open>Concrete states\<close>

text \<open>
  \<open>start_state\<close>: both globals zero, as C start-up leaves them, the registers zero and no
  call made yet. \<open>latched_state\<close>: the same with the collision flag set.
  \<open>servo_channel\<close>: a channel with the period that \<open>main\<close> gives Timer A2.
\<close>

definition start_state :: state where
  "start_state = \<lparr>bumper_sensor_value = 0, collision_detected = 0, P8_OUT = 0,
                   TIMER_A1_CCTL0 = 0, trace = []\<rparr>"

definition latched_state :: state where
  "latched_state = start_state\<lparr>collision_detected := 1\<rparr>"

definition servo_channel :: pwm_channel where
  "servo_channel = \<lparr>period = 60000, duty_a = 1700, duty_b = 7000, active = True\<rparr>"

section \<open>Auxiliary facts\<close>

subsection \<open>Bits of the indicator port\<close>

lemma less_8_cases: "n < LENGTH(8) \<Longrightarrow> n \<in> {0, 1, 2, 3, 4, 5, 6, 7}"
  by simp arith

lemma yellow_branch:
  fixes w :: "8 word"
  shows "((w XOR 0x21) AND NOT 0xC0) AND 0x21 = NOT w AND 0x21"
    and "((w XOR 0x21) AND NOT 0xC0) AND 0xC0 = 0"
    and "((w XOR 0x21) AND NOT 0xC0) AND NOT 0xE1 = w AND NOT 0xE1"
  by (rule bit_word_eqI, drule less_8_cases, auto simp add: bit_simps)+

lemma red_branch:
  fixes w :: "8 word"
  shows "((w XOR 0xC0) AND NOT 0x21) AND 0xC0 = NOT w AND 0xC0"
    and "((w XOR 0xC0) AND NOT 0x21) AND 0x21 = 0"
    and "((w XOR 0xC0) AND NOT 0x21) AND NOT 0xE1 = w AND NOT 0xE1"
  by (rule bit_word_eqI, drule less_8_cases, auto simp add: bit_simps)+

lemma task_P8_OUT:
  "P8_OUT (Timer_A1_10_Hz_Task s) =
     (if collision_detected s = 0 then (P8_OUT s XOR 0x21) AND NOT 0xC0
      else (P8_OUT s XOR 0xC0) AND NOT 0x21)"
  by (simp add: Timer_A1_10_Hz_Task_def Let_def)

lemma task_latch: "collision_detected (Timer_A1_10_Hz_Task s) = collision_detected s"
  by (simp add: Timer_A1_10_Hz_Task_def Let_def)

subsection \<open>The formatted message\<close>

lemma printf_02X_byte:
  "n < 256 \<Longrightarrow> printf_02X n = [hex_digit (n div 16), hex_digit (n mod 16)]"
proof (cases "n < 16")
  case True
  then show ?thesis by (simp add: printf_02X_def hex_digit_def)
next
  case False
  assume "n < 256"
  then have "n div 16 < 16" by simp
  with False show ?thesis by (simp add: printf_02X_def)
qed

lemma unat_byte: "unat (b :: 8 word) < 256"
  using unsigned_less [of b] by simp

lemma collision_message_digits:
  "collision_message b = ''Collision Detected! Bumper Sensor State: 0x'' @
     [''0123456789ABCDEF'' ! (unat b div 16), ''0123456789ABCDEF'' ! (unat b mod 16)] @
     [CHR 0x0A]"
  using printf_02X_byte [OF unat_byte [of b]]
  by (simp add: collision_message_def hex_digit_def)

subsection \<open>The bumper handler\<close>

lemma handler_clear:
  "collision_detected s = 0 \<Longrightarrow>
   Bumper_Sensors_Handler b s =
     s\<lparr>trace := trace s @ [Printf (collision_message b)], collision_detected := 1\<rparr>"
  by (simp add: Bumper_Sensors_Handler_def)

lemma handler_latched: "collision_detected s \<noteq> 0 \<Longrightarrow> Bumper_Sensors_Handler b s = s"
  by (simp add: Bumper_Sensors_Handler_def)

lemma handler_latch:
  "collision_detected (Bumper_Sensors_Handler b s) =
     (if collision_detected s = 0 then 1 else collision_detected s)"
  by (simp add: Bumper_Sensors_Handler_def)

lemma handler_keeps_sensor_value:
  "bumper_sensor_value (Bumper_Sensors_Handler b s) = bumper_sensor_value s"
  by (simp add: Bumper_Sensors_Handler_def)

subsection \<open>Statements and the collision flag\<close>

lemma main_loop_body_calls: "x \<in> set main_loop_body \<Longrightarrow> \<exists>c. x = Call c"
  by (auto simp add: main_loop_body_def)

lemma Drive_Pattern_1_body_calls: "x \<in> set Drive_Pattern_1_body \<Longrightarrow> \<exists>c. x = Call c"
  by (auto simp add: Drive_Pattern_1_body_def)

lemma step_Main_latch: "collision_detected (mem (step Main \<sigma>)) = collision_detected (mem \<sigma>)"
proof -
  have "main_loop_body ! (pc \<sigma> mod length main_loop_body) \<in> set main_loop_body"
    by (rule nth_mem) (simp add: main_loop_body_def)
  then obtain c where "main_loop_body ! (pc \<sigma> mod length main_loop_body) = Call c"
    using main_loop_body_calls by blast
  then show ?thesis by simp
qed

lemma step_TA1_latch:
  "collision_detected (mem (step TA1_0_IRQ \<sigma>)) = collision_detected (mem \<sigma>)"
  by (simp add: TA1_0_IRQHandler_def task_latch)

lemma step_latch_change:
  assumes "collision_detected (mem (step c \<sigma>)) \<noteq> collision_detected (mem \<sigma>)"
  shows "(\<exists>b. c = PORT4_IRQ b) \<and> collision_detected (mem \<sigma>) = 0 \<and>
         collision_detected (mem (step c \<sigma>)) = 1"
proof (cases c)
  case Main
  with assms show ?thesis using step_Main_latch [of \<sigma>] by simp
next
  case (PORT4_IRQ b)
  with assms show ?thesis by (simp add: handler_latch split: if_splits)
next
  case TA1_0_IRQ
  with assms show ?thesis using step_TA1_latch [of \<sigma>] by simp
qed

text \<open>Once the flag is set, no interleaving of the compiled program changes it again.\<close>

lemma steps_latched:
  "collision_detected (mem \<sigma>) \<noteq> 0 \<Longrightarrow>
   collision_detected (mem (steps cs \<sigma>)) = collision_detected (mem \<sigma>)"
proof (induction cs arbitrary: \<sigma>)
  case Nil
  then show ?case by simp
next
  case (Cons c cs)
  have "collision_detected (mem (step c \<sigma>)) = collision_detected (mem \<sigma>)"
    using step_latch_change [of c \<sigma>] Cons.prems by blast
  with Cons show ?case by simp
qed

lemma less_11_cases: "n < 11 \<Longrightarrow> n \<in> {0, 1, 2, 3, 4, 5, 6, 7, 8, 9, 10::nat}"
  by simp arith

lemma Handle_Collision_length: "length Handle_Collision_body = 11"
  by (simp add: Handle_Collision_body_def)

lemma Handle_Collision_stmt_latch:
  assumes "n < length Handle_Collision_body"
    and "collision_detected (exec (Handle_Collision_body ! n) s) \<noteq> collision_detected s"
  shows "Suc n = length Handle_Collision_body \<and>
         collision_detected (exec (Handle_Collision_body ! n) s) = 0"
proof -
  from assms(1) have "n < 11" by (simp add: Handle_Collision_length)
  from less_11_cases [OF this] assms(2) show ?thesis
    by (auto simp add: Handle_Collision_body_def)
qed

lemma Handle_Collision_prefix_latch:
  assumes "n \<le> 10"
  shows "collision_detected (run (take n Handle_Collision_body) s) = collision_detected s"
proof -
  from assms have "n < 11" by simp
  from less_11_cases [OF this] show ?thesis
    by (auto simp add: Handle_Collision_body_def)
qed

lemma main_loop_iteration_eq:
  "main_loop_iteration s =
     s\<lparr>trace := trace s @
        [Timer_A2_Update_Duty_Cycle_1 1700, Timer_A2_Update_Duty_Cycle_2 1700,
         LED2_Output RGB_LED_RED, Clock_Delay1ms 5000,
         Timer_A2_Update_Duty_Cycle_1 7000, Timer_A2_Update_Duty_Cycle_2 7000,
         LED2_Output RGB_LED_BLUE, Clock_Delay1ms 5000]\<rparr>"
  by (simp add: main_loop_iteration_def main_loop_body_def)

lemma main_loop_latch: "collision_detected (main_loop n s) = collision_detected s"
  by (induction n arbitrary: s) (simp_all add: main_loop_iteration_eq)

section \<open>The claims\<close>

text \<open>
  C1. The collision-recovery maneuver issues exactly five motor commands in order, Stop,
  Backward(4500,4500), Stop, Right(1500,1500), Stop, each followed by its blocking delay
  of 2000, 3000, 1000, 5000 and 2000 ms, and clears the collision flag as its last
  action: after the first ten statements (all five commands and delays) the flag is
  untouched, as it is after every shorter prefix.
\<close>

theorem Handle_Collision_sequence:
  "run (take 10 Handle_Collision_body) s =
     s\<lparr>trace := trace s @
        [Motor_Stop, Clock_Delay1ms 2000,
         Motor_Backward 4500 4500, Clock_Delay1ms 3000,
         Motor_Stop, Clock_Delay1ms 1000,
         Motor_Right 1500 1500, Clock_Delay1ms 5000,
         Motor_Stop, Clock_Delay1ms 2000]\<rparr> \<and>
   Handle_Collision s = (run (take 10 Handle_Collision_body) s)\<lparr>collision_detected := 0\<rparr> \<and>
   (\<forall>n \<le> 10. collision_detected (run (take n Handle_Collision_body) s) = collision_detected s)"
  by (simp add: Handle_Collision_prefix_latch)
     (simp add: Handle_Collision_def Handle_Collision_body_def)

theorem Handle_Collision_sequence_witness:
  "(10::nat) \<le> 10 \<and>
   collision_detected (run (take 10 Handle_Collision_body) latched_state) = 1 \<and>
   Handle_Collision latched_state =
     \<lparr>bumper_sensor_value = 0, collision_detected = 0, P8_OUT = 0, TIMER_A1_CCTL0 = 0,
      trace = [Motor_Stop, Clock_Delay1ms 2000,
               Motor_Backward 4500 4500, Clock_Delay1ms 3000,
               Motor_Stop, Clock_Delay1ms 1000,
               Motor_Right 1500 1500, Clock_Delay1ms 5000,
               Motor_Stop, Clock_Delay1ms 2000]\<rparr>"
  using Handle_Collision_sequence [of latched_state]
  by (simp add: latched_state_def start_state_def)

text \<open>
  C2. The demonstration drive pattern issues exactly eight motor commands in order,
  Forward(7500,7500), Stop, Left(4500,4500), Stop, Right(4500,4500), Stop,
  Backward(4500,4500), Stop, each followed by a blocking delay of 2000 ms, and does
  nothing else.
\<close>

theorem Drive_Pattern_1_sequence:
  "Drive_Pattern_1 s =
     s\<lparr>trace := trace s @
        [Motor_Forward 7500 7500, Clock_Delay1ms 2000,
         Motor_Stop, Clock_Delay1ms 2000,
         Motor_Left 4500 4500, Clock_Delay1ms 2000,
         Motor_Stop, Clock_Delay1ms 2000,
         Motor_Right 4500 4500, Clock_Delay1ms 2000,
         Motor_Stop, Clock_Delay1ms 2000,
         Motor_Backward 4500 4500, Clock_Delay1ms 2000,
         Motor_Stop, Clock_Delay1ms 2000]\<rparr>"
  by (simp add: Drive_Pattern_1_def Drive_Pattern_1_body_def)

text \<open>
  C3. The bumper handler is first-edge-wins: with the collision flag 0 it prints the
  diagnostic line once and sets the flag to 1, changing nothing else; with the flag
  already set it changes nothing and prints nothing. Running it a second time, with the
  same or any other bitmask, gives the state of running it once.
\<close>

theorem handler_first_edge_wins:
  "(collision_detected s = 0 \<longrightarrow>
      Bumper_Sensors_Handler b s =
        s\<lparr>trace := trace s @ [Printf (collision_message b)], collision_detected := 1\<rparr>) \<and>
   (collision_detected s \<noteq> 0 \<longrightarrow> Bumper_Sensors_Handler b s = s) \<and>
   Bumper_Sensors_Handler b (Bumper_Sensors_Handler b s) = Bumper_Sensors_Handler b s \<and>
   Bumper_Sensors_Handler b' (Bumper_Sensors_Handler b s) = Bumper_Sensors_Handler b s"
proof (cases "collision_detected s = 0")
  case True
  then have "collision_detected (Bumper_Sensors_Handler b s) \<noteq> 0"
    by (simp add: handler_clear)
  then show ?thesis using True by (simp add: handler_clear handler_latched)
next
  case False
  then show ?thesis by (simp add: handler_latched)
qed

theorem handler_first_edge_wins_witness:
  "collision_detected start_state = 0 \<and>
   Bumper_Sensors_Handler 0x2D start_state =
     \<lparr>bumper_sensor_value = 0, collision_detected = 1, P8_OUT = 0, TIMER_A1_CCTL0 = 0,
      trace = [Printf (''Collision Detected! Bumper Sensor State: 0x2D'' @ [CHR 0x0A])]\<rparr> \<and>
   collision_detected latched_state \<noteq> 0 \<and>
   Bumper_Sensors_Handler 0x2D latched_state = latched_state \<and>
   Bumper_Sensors_Handler 0x80 (Bumper_Sensors_Handler 0x2D start_state) =
     Bumper_Sensors_Handler 0x2D start_state"
  using handler_first_edge_wins [of start_state "0x2D" "0x80"]
    handler_first_edge_wins [of latched_state "0x2D" "0x80"]
  by (simp add: start_state_def latched_state_def Bumper_Sensors_Handler_def
      collision_message_def printf_02X_def hex_digit_def)

text \<open>
  C4. After initialisation, a step of the program (the next statement of the main loop,
  the bumper interrupt or the timer interrupt) changes the collision flag only when it
  is the bumper handler, and then from 0 to 1. Among the statements of the
  collision-recovery maneuver only the last one changes the flag, and it sets it to 0;
  no statement of the demonstration pattern or of the main loop changes it.
\<close>

theorem latch_transitions:
  "(collision_detected (mem (step c \<sigma>)) \<noteq> collision_detected (mem \<sigma>) \<longrightarrow>
      (\<exists>b. c = PORT4_IRQ b) \<and> collision_detected (mem \<sigma>) = 0 \<and>
      collision_detected (mem (step c \<sigma>)) = 1) \<and>
   (\<forall>n < length Handle_Collision_body.
      collision_detected (exec (Handle_Collision_body ! n) s) \<noteq> collision_detected s \<longrightarrow>
      Suc n = length Handle_Collision_body \<and>
      collision_detected (exec (Handle_Collision_body ! n) s) = 0) \<and>
   (\<forall>x \<in> set Drive_Pattern_1_body \<union> set main_loop_body.
      collision_detected (exec x s) = collision_detected s)"
proof (intro conjI impI allI ballI)
  fix x assume "x \<in> set Drive_Pattern_1_body \<union> set main_loop_body"
  then obtain c where "x = Call c"
    using Drive_Pattern_1_body_calls main_loop_body_calls by blast
  then show "collision_detected (exec x s) = collision_detected s" by simp
qed (use step_latch_change Handle_Collision_stmt_latch in blast)+

theorem latch_transitions_witness:
  "collision_detected (mem (step (PORT4_IRQ 0x01) \<lparr>mem = start_state, pc = 0\<rparr>)) \<noteq>
     collision_detected (mem \<lparr>mem = start_state, pc = 0\<rparr>) \<and>
   collision_detected (mem (step (PORT4_IRQ 0x01) \<lparr>mem = start_state, pc = 0\<rparr>)) = 1 \<and>
   (10::nat) < length Handle_Collision_body \<and>
   collision_detected (exec (Handle_Collision_body ! 10) latched_state) \<noteq>
     collision_detected latched_state \<and>
   collision_detected (exec (Handle_Collision_body ! 10) latched_state) = 0 \<and>
   Call Motor_Stop \<in> set Drive_Pattern_1_body \<union> set main_loop_body \<and>
   collision_detected (exec (Call Motor_Stop) latched_state) = collision_detected latched_state"
  using latch_transitions [of "PORT4_IRQ 0x01" "\<lparr>mem = start_state, pc = 0\<rparr>" latched_state]
  by (simp add: start_state_def latched_state_def Handle_Collision_body_def
      Drive_Pattern_1_body_def Bumper_Sensors_Handler_def)

text \<open>
  C5. An invocation of the 10 Hz task with the collision flag 0 toggles the front-yellow
  bits 0x21 of P8 and clears the back-red bits 0xC0; with the flag nonzero it toggles
  0xC0 and clears 0x21. The other bits of the port keep their values, and nothing but
  the port changes.
\<close>

theorem Timer_A1_10_Hz_Task_indicators:
  "(collision_detected s = 0 \<longrightarrow>
      P8_OUT (Timer_A1_10_Hz_Task s) AND 0x21 = NOT (P8_OUT s) AND 0x21 \<and>
      P8_OUT (Timer_A1_10_Hz_Task s) AND 0xC0 = 0) \<and>
   (collision_detected s \<noteq> 0 \<longrightarrow>
      P8_OUT (Timer_A1_10_Hz_Task s) AND 0xC0 = NOT (P8_OUT s) AND 0xC0 \<and>
      P8_OUT (Timer_A1_10_Hz_Task s) AND 0x21 = 0) \<and>
   P8_OUT (Timer_A1_10_Hz_Task s) AND NOT 0xE1 = P8_OUT s AND NOT 0xE1 \<and>
   Timer_A1_10_Hz_Task s = s\<lparr>P8_OUT := P8_OUT (Timer_A1_10_Hz_Task s)\<rparr>"
  unfolding Timer_A1_10_Hz_Task_def Let_def
  using yellow_branch [of "P8_OUT s"] red_branch [of "P8_OUT s"]
  by simp

theorem Timer_A1_10_Hz_Task_indicators_witness:
  "collision_detected (start_state\<lparr>P8_OUT := 0xDE\<rparr>) = 0 \<and>
   P8_OUT (Timer_A1_10_Hz_Task (start_state\<lparr>P8_OUT := 0xDE\<rparr>)) AND 0x21 = 0x21 \<and>
   P8_OUT (Timer_A1_10_Hz_Task (start_state\<lparr>P8_OUT := 0xDE\<rparr>)) AND 0xC0 = 0 \<and>
   P8_OUT (Timer_A1_10_Hz_Task (start_state\<lparr>P8_OUT := 0xDE\<rparr>)) AND NOT 0xE1 = 0x1E \<and>
   collision_detected (latched_state\<lparr>P8_OUT := 0xDE\<rparr>) \<noteq> 0 \<and>
   P8_OUT (Timer_A1_10_Hz_Task (latched_state\<lparr>P8_OUT := 0xDE\<rparr>)) AND 0xC0 = 0 \<and>
   P8_OUT (Timer_A1_10_Hz_Task (latched_state\<lparr>P8_OUT := 0xDE\<rparr>)) AND 0x21 = 0 \<and>
   P8_OUT (Timer_A1_10_Hz_Task (latched_state\<lparr>P8_OUT := 0xDE\<rparr>)) AND NOT 0xE1 = 0x1E"
  using Timer_A1_10_Hz_Task_indicators [of "start_state\<lparr>P8_OUT := 0xDE\<rparr>"]
    Timer_A1_10_Hz_Task_indicators [of "latched_state\<lparr>P8_OUT := 0xDE\<rparr>"]
  by (simp add: start_state_def latched_state_def)

text \<open>
  C6, as the claim states it, at a concrete input: entered with the collision flag set,
  an iteration of the main loop leaves the flag set and makes only the servo-sweep
  calls; it is not the collision-recovery maneuver.
\<close>

theorem main_loop_latched_counterexample:
  "collision_detected latched_state = 1 \<and>
   collision_detected (main_loop_iteration latched_state) = 1 \<and>
   trace (main_loop_iteration latched_state) =
     [Timer_A2_Update_Duty_Cycle_1 1700, Timer_A2_Update_Duty_Cycle_2 1700,
      LED2_Output RGB_LED_RED, Clock_Delay1ms 5000,
      Timer_A2_Update_Duty_Cycle_1 7000, Timer_A2_Update_Duty_Cycle_2 7000,
      LED2_Output RGB_LED_BLUE, Clock_Delay1ms 5000] \<and>
   main_loop_iteration latched_state \<noteq> Handle_Collision latched_state"
  by (simp add: main_loop_iteration_eq latched_state_def start_state_def
      Handle_Collision_def Handle_Collision_body_def)

text \<open>
  C6, amended. The main loop as compiled does not read the collision flag: every
  iteration performs the same servo sweep (both servo duties 1700, red LED, 5000 ms;
  both servo duties 7000, blue LED, 5000 ms) whatever the flag is, and any number of
  iterations leaves the flag as it was. The collision-recovery maneuver, which the loop
  does not invoke, ends with the flag cleared.
\<close>

theorem main_loop_servo_sweep:
  "main_loop_iteration s =
     s\<lparr>trace := trace s @
        [Timer_A2_Update_Duty_Cycle_1 1700, Timer_A2_Update_Duty_Cycle_2 1700,
         LED2_Output RGB_LED_RED, Clock_Delay1ms 5000,
         Timer_A2_Update_Duty_Cycle_1 7000, Timer_A2_Update_Duty_Cycle_2 7000,
         LED2_Output RGB_LED_BLUE, Clock_Delay1ms 5000]\<rparr> \<and>
   collision_detected (main_loop n s) = collision_detected s \<and>
   collision_detected (Handle_Collision s) = 0"
  by (simp add: main_loop_iteration_eq main_loop_latch Handle_Collision_def
      Handle_Collision_body_def)

text \<open>
  C7. After the bumper handler has run with bitmask \<open>b\<close>, \<open>bumper_sensor_value\<close> should
  equal \<open>b\<close>. The handler never assigns the variable: called with 0x01 in the start
  state it returns with the variable still 0.
\<close>

theorem handler_sensor_value_not_stored:
  "bumper_sensor_value (Bumper_Sensors_Handler 0x01 start_state) = 0 \<and>
   bumper_sensor_value (Bumper_Sensors_Handler 0x01 start_state) \<noteq> 0x01"
  by (simp add: handler_keeps_sensor_value start_state_def)

text \<open>
  C8. When a call of the handler takes the collision flag from 0 to 1 it makes exactly
  one call, the \<open>printf\<close> of the line "Collision Detected! Bumper Sensor State: 0x"
  followed by two upper-case hexadecimal digits and a newline; the digits are those of
  the bitmask passed to the handler, high nibble first. Entered with the flag 0 the
  handler always makes that transition. Entered with the flag already set it prints
  nothing and leaves the flag set, so an edge that follows a collision, with whatever
  bitmask, adds no line.
\<close>

theorem handler_diagnostic:
  "(collision_detected s = 0 \<longrightarrow>
      collision_detected (Bumper_Sensors_Handler b s) = 1 \<and>
      trace (Bumper_Sensors_Handler b s) =
        trace s @ [Printf (''Collision Detected! Bumper Sensor State: 0x'' @
                     [''0123456789ABCDEF'' ! (unat b div 16),
                      ''0123456789ABCDEF'' ! (unat b mod 16)] @ [CHR 0x0A])]) \<and>
   (collision_detected s \<noteq> 0 \<longrightarrow>
      collision_detected (Bumper_Sensors_Handler b s) = collision_detected s \<and>
      trace (Bumper_Sensors_Handler b s) = trace s) \<and>
   (trace (Bumper_Sensors_Handler b s) \<noteq> trace s \<longrightarrow>
      collision_detected s = 0 \<and> collision_detected (Bumper_Sensors_Handler b s) = 1) \<and>
   trace (Bumper_Sensors_Handler b' (Bumper_Sensors_Handler b s)) =
     trace (Bumper_Sensors_Handler b s) \<and>
   unat b div 16 < 16 \<and> unat b mod 16 < 16 \<and> 16 * (unat b div 16) + unat b mod 16 = unat b"
proof (cases "collision_detected s = 0")
  case True
  then have "collision_detected (Bumper_Sensors_Handler b s) \<noteq> 0"
    by (simp add: handler_clear)
  then have "Bumper_Sensors_Handler b' (Bumper_Sensors_Handler b s) = Bumper_Sensors_Handler b s"
    by (rule handler_latched)
  then show ?thesis
    using True unat_byte [of b] by (simp add: handler_clear collision_message_digits)
next
  case False
  then show ?thesis
    using unat_byte [of b] by (simp add: handler_latched)
qed

theorem handler_diagnostic_witness:
  "collision_detected start_state = 0 \<and>
   collision_detected (Bumper_Sensors_Handler 0x0A start_state) = 1 \<and>
   trace (Bumper_Sensors_Handler 0x0A start_state) =
     [Printf (''Collision Detected! Bumper Sensor State: 0x0A'' @ [CHR 0x0A])] \<and>
   trace (Bumper_Sensors_Handler 0x0A start_state) \<noteq> trace start_state \<and>
   trace (Bumper_Sensors_Handler 0x80 (Bumper_Sensors_Handler 0x0A start_state)) =
     [Printf (''Collision Detected! Bumper Sensor State: 0x0A'' @ [CHR 0x0A])] \<and>
   collision_detected latched_state \<noteq> 0 \<and>
   collision_detected (Bumper_Sensors_Handler 0x0A latched_state) = 1 \<and>
   trace (Bumper_Sensors_Handler 0x0A latched_state) = []"
  using handler_diagnostic [of start_state "0x0A" "0x80"]
    handler_diagnostic [of latched_state "0x0A" "0x80"]
  by (simp add: start_state_def latched_state_def)

text \<open>
  C9. For a PWM channel with period \<open>P\<close>, \<open>update_duty\<close> with a value above \<open>P\<close> sets
  the addressed output's duty to \<open>P\<close>, the top of the range from 0 to \<open>P\<close> and so no
  more than 100 percent, and leaves the other output's duty, the period and the
  active/stopped state as they were.
\<close>

theorem update_duty_clamped:
  assumes "period ch < v"
  shows "duty_a (update_duty Output_A v ch) = period ch \<and>
         duty_a (update_duty Output_A v ch) \<le> period (update_duty Output_A v ch) \<and>
         duty_b (update_duty Output_A v ch) = duty_b ch \<and>
         period (update_duty Output_A v ch) = period ch \<and>
         active (update_duty Output_A v ch) = active ch \<and>
         duty_b (update_duty Output_B v ch) = period ch \<and>
         duty_b (update_duty Output_B v ch) \<le> period (update_duty Output_B v ch) \<and>
         duty_a (update_duty Output_B v ch) = duty_a ch \<and>
         period (update_duty Output_B v ch) = period ch \<and>
         active (update_duty Output_B v ch) = active ch"
  using assms by (simp add: update_duty_def)

theorem update_duty_clamped_witness:
  "period servo_channel < 65000 \<and>
   update_duty Output_A 65000 servo_channel =
     \<lparr>period = 60000, duty_a = 60000, duty_b = 7000, active = True\<rparr> \<and>
   update_duty Output_B 65000 servo_channel =
     \<lparr>period = 60000, duty_a = 1700, duty_b = 60000, active = True\<rparr>"
proof -
  have h: "period servo_channel < 65000"
    by (simp add: servo_channel_def)
  show ?thesis
    using h update_duty_clamped [OF h] by (simp add: update_duty_def servo_channel_def)
qed

text \<open>
  C10. After every invocation of the 10 Hz task the front-yellow bits 0x21 and the
  back-red bits 0xC0 of P8 are not both nonzero: the invocation clears the back-red
  group when the collision flag is 0 and the front-yellow group otherwise.
\<close>

theorem indicator_groups_exclusive:
  "(P8_OUT (Timer_A1_10_Hz_Task s) AND 0x21 = 0 \<or>
    P8_OUT (Timer_A1_10_Hz_Task s) AND 0xC0 = 0) \<and>
   P8_OUT (Timer_A1_10_Hz_Task s) AND (if collision_detected s = 0 then 0xC0 else 0x21) = 0"
  using yellow_branch(2) [of "P8_OUT s"] red_branch(2) [of "P8_OUT s"]
  by (simp add: task_P8_OUT)

end
